theory Spec2Isabelle
  imports Main
begin

unbundle bit_operations_syntax

section \<open>Python values and the operations the decoders apply to them\<close>

text \<open>
  The snapshot is the result of \<^verbatim>\<open>json.loads\<close>: integers, strings, booleans,
  \<^verbatim>\<open>None\<close>, lists and dictionaries with string keys. A dictionary is an association
  list read with \<open>map_of\<close>. Floating point numbers are outside the model.
\<close>

datatype val =
    VNone
  | VBool bool
  | VInt int
  | VStr string
  | VList "val list"
  | VDict "(string \<times> val) list"

text \<open>
  The exceptions the modelled code can raise. \<^verbatim>\<open>NameError\<close> is what evaluating an
  unbound name raises.
\<close>

datatype error = KeyError | IndexError | TypeError | NameError

definition bind_err :: "error + 'a \<Rightarrow> ('a \<Rightarrow> error + 'b) \<Rightarrow> error + 'b" where
  "bind_err m f = (case m of Inl e \<Rightarrow> Inl e | Inr x \<Rightarrow> f x)"

text \<open>Truth value of an object in a condition (\<^verbatim>\<open>True if x else False\<close>).\<close>

fun truthy :: "val \<Rightarrow> bool" where
  "truthy VNone = False"
| "truthy (VBool b) = b"
| "truthy (VInt i) = (i \<noteq> 0)"
| "truthy (VStr s) = (s \<noteq> [])"
| "truthy (VList xs) = (xs \<noteq> [])"
| "truthy (VDict d) = (d \<noteq> [])"

text \<open>
  The integer an operand of \<^verbatim>\<open>&\<close>, \<^verbatim>\<open><\<close> or \<^verbatim>\<open>>\<close> stands for when the other
  operand is an \<^verbatim>\<open>int\<close>: an \<^verbatim>\<open>int\<close> itself, a \<^verbatim>\<open>bool\<close> as 0 or 1; every other
  type raises \<^verbatim>\<open>TypeError\<close>.
\<close>

fun as_int :: "val \<Rightarrow> error + int" where
  "as_int (VInt i) = Inr i"
| "as_int (VBool b) = Inr (if b then 1 else 0)"
| "as_int v = Inl TypeError"

text \<open>\<^verbatim>\<open>x & m\<close> for an integer literal or power \<open>m\<close>.\<close>

definition py_and :: "val \<Rightarrow> int \<Rightarrow> error + int" where
  "py_and x m = bind_err (as_int x) (\<lambda>i. Inr (i AND m))"

text \<open>\<^verbatim>\<open>d[k]\<close> on a dictionary: \<^verbatim>\<open>KeyError\<close> when the key is missing.\<close>

definition dict_getitem :: "(string \<times> 'a) list \<Rightarrow> string \<Rightarrow> error + 'a" where
  "dict_getitem d k = (case map_of d k of None \<Rightarrow> Inl KeyError | Some v \<Rightarrow> Inr v)"

text \<open>\<^verbatim>\<open>k in d\<close> on a dictionary.\<close>

definition dict_contains :: "(string \<times> 'a) list \<Rightarrow> string \<Rightarrow> bool" where
  "dict_contains d k = (map_of d k \<noteq> None)"

text \<open>
  \<^verbatim>\<open>xs[i]\<close> for an integer \<open>i\<close>: lists and strings are indexed (negative indices
  count from the end, out of range raises \<^verbatim>\<open>IndexError\<close>), a dictionary with
  string keys has no integer key, every other type is not subscriptable.
\<close>

definition list_getitem :: "'a list \<Rightarrow> int \<Rightarrow> error + 'a" where
  "list_getitem xs i =
     (if 0 \<le> i then
        (if i < int (length xs) then Inr (xs ! nat i) else Inl IndexError)
      else
        (if - int (length xs) \<le> i then Inr (xs ! nat (int (length xs) + i))
         else Inl IndexError))"

fun val_getitem :: "val \<Rightarrow> int \<Rightarrow> error + val" where
  "val_getitem (VList xs) i = list_getitem xs i"
| "val_getitem (VStr s) i = bind_err (list_getitem s i) (\<lambda>c. Inr (VStr [c]))"
| "val_getitem (VDict d) i = Inl KeyError"
| "val_getitem v i = Inl TypeError"

text \<open>The items a \<^verbatim>\<open>for\<close> loop over an object visits.\<close>

fun val_iter :: "val \<Rightarrow> error + val list" where
  "val_iter (VList xs) = Inr xs"
| "val_iter (VStr s) = Inr (map (\<lambda>c. VStr [c]) s)"
| "val_iter (VDict d) = Inr (map VStr (remdups (map fst d)))"
| "val_iter v = Inl TypeError"

text \<open>
  A \<^verbatim>\<open>try\<close> block that mutates an object: each statement maps the object to the
  updated object and the exception it raised, if any. The block stops at the first
  exception and keeps what was assigned before it.
\<close>

fun run_steps :: "('s \<Rightarrow> 's \<times> error option) list \<Rightarrow> 's \<Rightarrow> 's \<times> error option" where
  "run_steps [] s = (s, None)"
| "run_steps (f # fs) s =
     (case f s of
        (s', None) \<Rightarrow> run_steps fs s'
      | (s', Some e) \<Rightarrow> (s', Some e))"

section \<open>OpenSprinklerProgram\<close>

record program =
  program_name :: val
  program_enabled :: bool
  program_use_weather_adjustment :: bool
  program_restriction :: string
  program_schedule_type :: string
  program_start_time_type :: string
  program_schedule :: "val list"
  program_fixed_start_times :: "val list"
  program_repeating_start_times :: "val list"
  program_zone_durations :: val

text \<open>The class attributes, which an instance reads until it assigns its own.\<close>

definition program_class_attrs :: program where
  "program_class_attrs =
     \<lparr>program_name = VStr [],
      program_enabled = False,
      program_use_weather_adjustment = False,
      program_restriction = [],
      program_schedule_type = [],
      program_start_time_type = [],
      program_schedule = [],
      program_fixed_start_times = [],
      program_repeating_start_times = [],
      program_zone_durations = VList []\<rparr>"

definition week :: "string list" where
  "week = [''Monday'', ''Tuesday'', ''Wednesday'', ''Thursday'', ''Friday'', ''Saturday'',
           ''Sunday'']"

subsection \<open>Getters\<close>

definition getScheduleType :: "program \<Rightarrow> string" where
  "getScheduleType self = program_schedule_type self"

definition getStartTimeType :: "program \<Rightarrow> string" where
  "getStartTimeType self = program_start_time_type self"

definition getSchedule :: "program \<Rightarrow> val list" where
  "getSchedule self = program_schedule self"

definition getDurations :: "program \<Rightarrow> val" where
  "getDurations self = program_zone_durations self"

definition getStartTimes :: "program \<Rightarrow> val list" where
  "getStartTimes self =
     (if length (program_fixed_start_times self) > 0 then program_fixed_start_times self
      else program_repeating_start_times self)"

subsection \<open>Setters\<close>

text \<open>
  The plain setters assign one attribute; the assignment cannot raise, so their
  \<^verbatim>\<open>except\<close> branches (which only log) are never taken.
\<close>

definition setName :: "program \<Rightarrow> val \<Rightarrow> program" where
  "setName self progname = self\<lparr>program_name := progname\<rparr>"

definition setEnabled :: "program \<Rightarrow> bool \<Rightarrow> program" where
  "setEnabled self is_enabled = self\<lparr>program_enabled := is_enabled\<rparr>"

definition setWxAdjustment :: "program \<Rightarrow> bool \<Rightarrow> program" where
  "setWxAdjustment self wxadj = self\<lparr>program_use_weather_adjustment := wxadj\<rparr>"

definition setRestrictions :: "program \<Rightarrow> string \<Rightarrow> program" where
  "setRestrictions self restriction = self\<lparr>program_restriction := restriction\<rparr>"

definition setScheduleType :: "program \<Rightarrow> string \<Rightarrow> program" where
  "setScheduleType self stype = self\<lparr>program_schedule_type := stype\<rparr>"

definition setStartTimeType :: "program \<Rightarrow> string \<Rightarrow> program" where
  "setStartTimeType self timetype = self\<lparr>program_start_time_type := timetype\<rparr>"

definition setDurations :: "program \<Rightarrow> val \<Rightarrow> program" where
  "setDurations self durations = self\<lparr>program_zone_durations := durations\<rparr>"

text \<open>
  \<^verbatim>\<open>setWeekdaySchedule\<close>: one dictionary \<^verbatim>\<open>{day_name: is_scheduled}\<close> per day of
  \<^verbatim>\<open>week\<close>, with \<^verbatim>\<open>is_scheduled = True if (d0 & (2**day_index)) else False\<close>. The
  local list is assigned to the attribute only after the loop, so an exception in
  the loop leaves the object as it was.
\<close>

fun weekday_entries :: "val \<Rightarrow> (nat \<times> string) list \<Rightarrow> error + val list" where
  "weekday_entries d0 [] = Inr []"
| "weekday_entries d0 ((day_index, day_name) # days) =
     bind_err (py_and d0 (2 ^ day_index)) (\<lambda>b.
     bind_err (weekday_entries d0 days) (\<lambda>rest.
       Inr (VDict [(day_name, VBool (b \<noteq> 0))] # rest)))"

definition setWeekdaySchedule :: "val \<Rightarrow> program \<Rightarrow> program \<times> error option" where
  "setWeekdaySchedule d0 self =
     (case weekday_entries d0 (enumerate 0 week) of
        Inl e \<Rightarrow> (self, Some e)
      | Inr schedule \<Rightarrow> (self\<lparr>program_schedule := schedule\<rparr>, None))"

text \<open>
  \<^verbatim>\<open>setIntervalSchedule(self, d0, d1)\<close> stores the one-element list
  \<^verbatim>\<open>[{'interval': d1, 'delay': d0}]\<close> built from its own parameters.
\<close>

definition setIntervalSchedule :: "val \<Rightarrow> val \<Rightarrow> program \<Rightarrow> program \<times> error option" where
  "setIntervalSchedule d0 d1 self =
     (self\<lparr>program_schedule := [VDict [(''interval'', d1), (''delay'', d0)]]\<rparr>, None)"

text \<open>
  \<^verbatim>\<open>setSchedule(self, pstype, d0, d1)\<close> calls \<^verbatim>\<open>setWeekdaySchedule(d0)\<close> or
  \<^verbatim>\<open>setIntervalSchedule(d1, d0)\<close>, the arguments in this order.
\<close>

definition setSchedule :: "string \<Rightarrow> val \<Rightarrow> val \<Rightarrow> program \<Rightarrow> program \<times> error option" where
  "setSchedule pstype d0 d1 self =
     (if pstype = ''Weekday'' then setWeekdaySchedule d0 self
      else setIntervalSchedule d1 d0 self)"

text \<open>
  The loop of \<^verbatim>\<open>setFixedStartTimes\<close>: every item with \<^verbatim>\<open>sTime > 0\<close> is appended as
  it is. The comparison raises for an item that is not a number.
\<close>

fun fixed_loop :: "val list \<Rightarrow> program \<Rightarrow> program \<times> error option" where
  "fixed_loop [] self = (self, None)"
| "fixed_loop (sTime # rest) self =
     (case as_int sTime of
        Inl e \<Rightarrow> (self, Some e)
      | Inr t \<Rightarrow>
          if t > 0
          then fixed_loop rest
                 (self\<lparr>program_fixed_start_times := program_fixed_start_times self @ [sTime]\<rparr>)
          else fixed_loop rest self)"

text \<open>
  \<^verbatim>\<open>setFixedStartTimes(self, startTimes)\<close> empties both lists and then iterates over
  the name \<^verbatim>\<open>sTimes\<close>. Its only local names are \<^verbatim>\<open>self\<close> and \<^verbatim>\<open>startTimes\<close>, and
  the module binds no global \<^verbatim>\<open>sTimes\<close>: the name is looked up among the locals
  that hold a value and raises \<^verbatim>\<open>NameError\<close> when it is not there.
\<close>

definition local_name :: "(string \<times> val) list \<Rightarrow> string \<Rightarrow> error + val" where
  "local_name locals n = (case map_of locals n of None \<Rightarrow> Inl NameError | Some v \<Rightarrow> Inr v)"

definition setFixedStartTimes :: "val \<Rightarrow> program \<Rightarrow> program \<times> error option" where
  "setFixedStartTimes startTimes self =
     (let self1 = self\<lparr>program_fixed_start_times := []\<rparr>;
          self2 = self1\<lparr>program_repeating_start_times := []\<rparr>
      in case bind_err (local_name [(''startTimes'', startTimes)] ''sTimes'') val_iter of
           Inl e \<Rightarrow> (self2, Some e)
         | Inr items \<Rightarrow> fixed_loop items self2)"

text \<open>
  One decoded repeating start time, the dictionary
  \<^verbatim>\<open>{'basis': start_basis, 'sign': sign, 'offset': offset}\<close>.
\<close>

definition repeating_start_time :: "int \<Rightarrow> val" where
  "repeating_start_time t =
     VDict [(''basis'', VStr (if t AND 0x2000 \<noteq> 0 then ''Sunset''
                             else if t AND 0x1000 \<noteq> 0 then ''Sunrise''
                             else ''Midnight'')),
            (''sign'', VStr (if t AND 0x800 \<noteq> 0 then ''plus'' else ''minus'')),
            (''offset'', VInt (t AND 0x7ff))]"

text \<open>
  The loop of \<^verbatim>\<open>setRepeatingStartTimes\<close>: an item is decoded and appended when
  \<^verbatim>\<open>sTime > 0\<close>, and skipped otherwise. An item that is not a number raises at the
  comparison; one that passed it is a number for every \<^verbatim>\<open>&\<close> that follows.
\<close>

fun repeating_loop :: "val list \<Rightarrow> program \<Rightarrow> program \<times> error option" where
  "repeating_loop [] self = (self, None)"
| "repeating_loop (sTime # rest) self =
     (case as_int sTime of
        Inl e \<Rightarrow> (self, Some e)
      | Inr t \<Rightarrow>
          if t > 0
          then repeating_loop rest
                 (self\<lparr>program_repeating_start_times :=
                    program_repeating_start_times self @ [repeating_start_time t]\<rparr>)
          else repeating_loop rest self)"

definition setRepeatingStartTimes :: "val \<Rightarrow> program \<Rightarrow> program \<times> error option" where
  "setRepeatingStartTimes sTimes self =
     (let self1 = self\<lparr>program_fixed_start_times := []\<rparr>;
          self2 = self1\<lparr>program_repeating_start_times := []\<rparr>
      in case val_iter sTimes of
           Inl e \<Rightarrow> (self2, Some e)
         | Inr items \<Rightarrow> repeating_loop items self2)"

definition setStartTimes :: "string \<Rightarrow> val \<Rightarrow> program \<Rightarrow> program \<times> error option" where
  "setStartTimes psttype sTimes self =
     (if psttype = ''Fixed'' then setFixedStartTimes sTimes self
      else setRepeatingStartTimes sTimes self)"

subsection \<open>The constructor\<close>

text \<open>
  The statements of the \<^verbatim>\<open>try\<close> block of \<^verbatim>\<open>__init__\<close>, in order. The argument of a
  setter is evaluated before the call, so a \<^verbatim>\<open>flags\<close> that is not a number raises
  there and the setter is not called.
\<close>

definition init_enabled :: "val \<Rightarrow> program \<Rightarrow> program \<times> error option" where
  "init_enabled flags self =
     (case py_and flags 1 of
        Inl e \<Rightarrow> (self, Some e)
      | Inr b \<Rightarrow> (setEnabled self (b \<noteq> 0), None))"

definition init_wx_adjustment :: "val \<Rightarrow> program \<Rightarrow> program \<times> error option" where
  "init_wx_adjustment flags self =
     (case py_and flags 2 of
        Inl e \<Rightarrow> (self, Some e)
      | Inr b \<Rightarrow> (setWxAdjustment self (b \<noteq> 0), None))"

definition init_restrictions :: "val \<Rightarrow> program \<Rightarrow> program \<times> error option" where
  "init_restrictions flags self =
     (case py_and flags 4 of
        Inl e \<Rightarrow> (self, Some e)
      | Inr b2 \<Rightarrow>
          if b2 \<noteq> 0 then (setRestrictions self ''Odd'', None)
          else (case py_and flags 8 of
                  Inl e \<Rightarrow> (self, Some e)
                | Inr b3 \<Rightarrow>
                    (setRestrictions self (if b3 \<noteq> 0 then ''Even'' else ''None''), None)))"

definition init_schedule_type :: "val \<Rightarrow> program \<Rightarrow> program \<times> error option" where
  "init_schedule_type flags self =
     (case py_and flags 16 of
        Inl e \<Rightarrow> (self, Some e)
      | Inr b4 \<Rightarrow>
          if b4 \<noteq> 0 then (setScheduleType self ''Interval'', None)
          else (case py_and flags 32 of
                  Inl e \<Rightarrow> (self, Some e)
                | Inr b5 \<Rightarrow>
                    (setScheduleType self (if b5 \<noteq> 0 then ''Interval'' else ''Weekday''),
                     None)))"

definition init_start_time_type :: "val \<Rightarrow> program \<Rightarrow> program \<times> error option" where
  "init_start_time_type flags self =
     (case py_and flags 64 of
        Inl e \<Rightarrow> (self, Some e)
      | Inr b \<Rightarrow> (setStartTimeType self (if b \<noteq> 0 then ''Fixed'' else ''Repeating''), None))"

definition program_try ::
  "val \<Rightarrow> val \<Rightarrow> val \<Rightarrow> val \<Rightarrow> val \<Rightarrow> val \<Rightarrow> program \<Rightarrow> program \<times> error option" where
  "program_try pname flags days0 days1 sTimes durs =
     run_steps
       [\<lambda>self. (setName self pname, None),
        init_enabled flags,
        init_wx_adjustment flags,
        init_restrictions flags,
        init_schedule_type flags,
        init_start_time_type flags,
        \<lambda>self. setSchedule (getScheduleType self) days0 days1 self,
        \<lambda>self. setStartTimes (getStartTimeType self) sTimes self,
        \<lambda>self. (setDurations self durs, None)]"

text \<open>
  \<^verbatim>\<open>OpenSprinklerProgram(pname, flags, days0, days1, sTimes, durs)\<close>: the
  \<^verbatim>\<open>except\<close> branch logs and the object is returned as far as it got.
\<close>

definition OpenSprinklerProgram_init ::
  "val \<Rightarrow> val \<Rightarrow> val \<Rightarrow> val \<Rightarrow> val \<Rightarrow> val \<Rightarrow> program" where
  "OpenSprinklerProgram_init pname flags days0 days1 sTimes durs =
     fst (program_try pname flags days0 days1 sTimes durs program_class_attrs)"

section \<open>OpenSprinklerController\<close>

text \<open>
  The argument of the constructor: a dictionary of sections, each a dictionary from
  abbreviations to values.
\<close>

type_synonym snapshot = "(string \<times> (string \<times> val) list) list"

text \<open>
  An entry of \<^verbatim>\<open>controller_properties\<close>: the keys \<^verbatim>\<open>'name'\<close>, \<^verbatim>\<open>'source'\<close> and
  \<^verbatim>\<open>'val'\<close> are in every entry, \<^verbatim>\<open>'abbrev'\<close> only in the entries read from the
  snapshot and \<^verbatim>\<open>'formula'\<close> only in the derived ones.
\<close>

record prop_item =
  prop_name :: string
  prop_source :: string
  prop_abbrev :: "string option"
  prop_formula :: "string option"
  prop_val :: val

definition sourced :: "string \<Rightarrow> string \<Rightarrow> string \<Rightarrow> val \<Rightarrow> prop_item" where
  "sourced n s a v =
     \<lparr>prop_name = n, prop_source = s, prop_abbrev = Some a, prop_formula = None, prop_val = v\<rparr>"

definition derived :: "string \<Rightarrow> string \<Rightarrow> val \<Rightarrow> prop_item" where
  "derived n f v =
     \<lparr>prop_name = n, prop_source = ''derived'', prop_abbrev = None, prop_formula = Some f,
      prop_val = v\<rparr>"

text \<open>The list the constructor assigns to \<^verbatim>\<open>self.controller_properties\<close>.\<close>

definition registry :: "prop_item list" where
  "registry =
     [sourced ''device_time'' ''settings'' ''devt'' (VInt 0),
      sourced ''num_boards'' ''settings'' ''nbrd'' (VInt 0),
      sourced ''enabled'' ''settings'' ''en'' (VInt 0),
      sourced ''rain_delay'' ''settings'' ''rd'' (VInt 0),
      sourced ''rain_sensor_status'' ''settings'' ''rs'' (VInt 0),
      sourced ''rain_delay_stop_time'' ''settings'' ''rdst'' (VInt 0),
      sourced ''location'' ''settings'' ''loc'' (VStr []),
      sourced ''wunderground_api_key'' ''settings'' ''wtkey'' (VStr []),
      sourced ''sunrise'' ''settings'' ''sunrise'' (VInt 0),
      sourced ''sunset'' ''settings'' ''sunset'' (VInt 0),
      sourced ''external_ip_address'' ''settings'' ''eip'' (VInt 0),
      sourced ''last_weather_call'' ''settings'' ''lwc'' (VInt 0),
      sourced ''last_successful_weather_call'' ''settings'' ''lswc'' (VInt 0),
      sourced ''last_run_record'' ''settings'' ''lrun'' (VInt 0),
      sourced ''weather_options'' ''settings'' ''wto'' (VDict []),
      sourced ''firmware_version'' ''options'' ''fwv'' (VInt 0),
      sourced ''firmware_minor_version'' ''options'' ''fwm'' (VInt 0),
      sourced ''time_zone'' ''options'' ''tz'' (VInt 0),
      sourced ''ntp_synch_flag'' ''options'' ''ntp'' (VInt 0),
      sourced ''use_dhcp_flag'' ''options'' ''dhcp'' (VInt 0),
      sourced ''ip1'' ''options'' ''ip1'' (VInt 0),
      sourced ''ip2'' ''options'' ''ip2'' (VInt 0),
      sourced ''ip3'' ''options'' ''ip3'' (VInt 0),
      sourced ''ip4'' ''options'' ''ip4'' (VInt 0),
      sourced ''gw1'' ''options'' ''gw1'' (VInt 0),
      sourced ''gw2'' ''options'' ''gw2'' (VInt 0),
      sourced ''gw3'' ''options'' ''gw3'' (VInt 0),
      sourced ''gw4'' ''options'' ''gw4'' (VInt 0),
      sourced ''ntp1'' ''options'' ''ntp1'' (VInt 0),
      sourced ''ntp2'' ''options'' ''ntp2'' (VInt 0),
      sourced ''ntp3'' ''options'' ''ntp3'' (VInt 0),
      sourced ''ntp4'' ''options'' ''ntp4'' (VInt 0),
      sourced ''hp0'' ''options'' ''hp0'' (VInt 0),
      sourced ''hp1'' ''options'' ''hp1'' (VInt 0),
      sourced ''hardware_version'' ''options'' ''hwv'' (VInt 0),
      sourced ''hardware_type'' ''options'' ''hwt'' (VInt 0),
      sourced ''num_expansion_boards'' ''options'' ''ext'' (VInt 0),
      sourced ''station_delay_time'' ''options'' ''sdt'' (VInt 0),
      sourced ''master_station_1'' ''options'' ''mas'' (VInt 0),
      sourced ''master_station_2'' ''options'' ''mas2'' (VInt 0),
      sourced ''master_station_1_on_delay'' ''options'' ''mton'' (VInt 0),
      sourced ''master_station_2_on_delay'' ''options'' ''mton2'' (VInt 0),
      sourced ''master_station_1_off_delay'' ''options'' ''mtof'' (VInt 0),
      sourced ''master_station_2_off_delay'' ''options'' ''mtof2'' (VInt 0),
      sourced ''use_rain_sensor'' ''options'' ''urs'' (VInt 0),
      sourced ''rain_sensor_type'' ''options'' ''rso'' (VInt 0),
      sourced ''water_level'' ''options'' ''wl'' (VInt 0),
      sourced ''operation_enabled'' ''options'' ''den'' (VInt 0),
      sourced ''ignore_password'' ''options'' ''ipas'' (VInt 0),
      sourced ''device_id'' ''options'' ''devid'' (VInt 0),
      sourced ''lcd_contrast'' ''options'' ''con'' (VInt 0),
      sourced ''lcd_backlight'' ''options'' ''lit'' (VInt 0),
      sourced ''lcd_dimming'' ''options'' ''dim'' (VInt 0),
      sourced ''boost_time'' ''options'' ''bst'' (VInt 0),
      sourced ''weather_adjustment_method'' ''options'' ''uwt'' (VInt 0),
      sourced ''enable_logging'' ''options'' ''lg'' (VInt 0),
      sourced ''fpr0'' ''options'' ''fpr0'' (VInt 0),
      sourced ''fpr1'' ''options'' ''fpr1'' (VInt 0),
      sourced ''remote_extension_mode'' ''options'' ''re'' (VInt 0),
      sourced ''detected_extension_boards'' ''options'' ''dexp'' (VInt 0),
      sourced ''max_extension_boards'' ''options'' ''mexp'' (VInt 0),
      sourced ''station_names'' ''stations'' ''snames'' (VList []),
      sourced ''station_status'' ''status'' ''sn'' (VList []),
      sourced ''num_stations'' ''status'' ''nstations'' (VInt 0),
      sourced ''num_programs'' ''programs'' ''nprogs'' (VInt 0),
      sourced ''max_programs'' ''programs'' ''mnp'' (VInt 0),
      sourced ''max_start_times'' ''programs'' ''mnst'' (VInt 0),
      sourced ''program_name_size'' ''programs'' ''pnsize'' (VInt 0),
      derived ''ntp_ipv4_address'' [] (VStr []),
      derived ''dhcp_ipv4_address'' [] (VStr []),
      derived ''gw_ipv4_address'' [] (VStr []),
      derived ''port_number'' ''hp1 << 8 + hp0'' (VInt 0),
      derived ''flow_pulse_rate'' ''fpr1 << 8 + fpr0'' (VStr [])]"

record station =
  station_name :: val
  status :: val
  station_id :: int
  ignore_rain_flag :: int
  is_sequential_flag :: int
  is_disabled_flag :: int
  is_special_flag :: int

text \<open>\<^verbatim>\<open>OpenSprinklerStation(sname, sstatus, sid, sirf, sseqf, sdisf, sspef)\<close>.\<close>

definition OpenSprinklerStation_init ::
  "val \<Rightarrow> val \<Rightarrow> int \<Rightarrow> int \<Rightarrow> int \<Rightarrow> int \<Rightarrow> int \<Rightarrow> station" where
  "OpenSprinklerStation_init sname sstatus sid sirf sseqf sdisf sspef =
     \<lparr>station_name = sname, status = sstatus, station_id = sid, ignore_rain_flag = sirf,
      is_sequential_flag = sseqf, is_disabled_flag = sdisf, is_special_flag = sspef\<rparr>"

text \<open>
  The attributes of an instance. \<^verbatim>\<open>__init__\<close> assigns \<^verbatim>\<open>controller_properties\<close>
  and, when it gets that far, \<^verbatim>\<open>controller_enabled\<close> (until then the class
  attribute \<^verbatim>\<open>False\<close> is read).
\<close>

record controller =
  controller_properties :: "prop_item list"
  controller_enabled :: bool

text \<open>
  \<^verbatim>\<open>controller_stations\<close> and \<^verbatim>\<open>controller_programs\<close> are lists bound in the class
  body. No method assigns them on an instance; \<^verbatim>\<open>__init__\<close> appends to them through
  \<^verbatim>\<open>self\<close>, so every instance reads and extends the same two lists. They are the
  state that is passed through each construction.
\<close>

record class_attrs =
  controller_stations :: "station list"
  controller_programs :: "program list"

text \<open>The class attributes when the module has just been loaded.\<close>

definition class_loaded :: class_attrs where
  "class_loaded = \<lparr>controller_stations = [], controller_programs = []\<rparr>"

subsection \<open>Getters and setters\<close>

text \<open>
  \<^verbatim>\<open>getProperty\<close>: the body of the loop returns when the first entry has the name
  and raises otherwise, so the loop never reaches a second entry; with no entry at
  all the function returns \<^verbatim>\<open>None\<close>. The \<^verbatim>\<open>raise\<close> statement names
  \<^verbatim>\<open>UnknownPropertyError\<close>, which the module does not bind (its class is
  \<^verbatim>\<open>OS_UnknownPropertyError\<close>): the exception raised is \<^verbatim>\<open>NameError\<close>.
\<close>

fun getProperty :: "prop_item list \<Rightarrow> string \<Rightarrow> error + val" where
  "getProperty [] var_name = Inr VNone"
| "getProperty (prop_item # rest) var_name =
     (if prop_name prop_item = var_name then Inr (prop_val prop_item) else Inl NameError)"

definition getProperties :: "prop_item list \<Rightarrow> (string \<times> val) list" where
  "getProperties props = map (\<lambda>prop_item. (prop_name prop_item, prop_val prop_item)) props"

definition isEnabled :: "controller \<Rightarrow> bool" where
  "isEnabled self = controller_enabled self"

definition getStations :: "class_attrs \<Rightarrow> controller \<Rightarrow> station list" where
  "getStations cls self = controller_stations cls"

definition getPrograms :: "class_attrs \<Rightarrow> controller \<Rightarrow> program list" where
  "getPrograms cls self = controller_programs cls"

text \<open>
  \<^verbatim>\<open>setProperty\<close>: every entry with the name gets the value (the loop has no
  \<^verbatim>\<open>break\<close>). The function returns \<^verbatim>\<open>'ERROR'\<close> from the \<^verbatim>\<open>except\<close> branch and
  \<^verbatim>\<open>None\<close> when the loop ends. The result is the updated list and the value
  returned.
\<close>

definition prop_set_val :: "prop_item \<Rightarrow> val \<Rightarrow> error + prop_item" where
  "prop_set_val prop_item var_value = Inr (prop_item\<lparr>prop_val := var_value\<rparr>)"

fun setProperty :: "prop_item list \<Rightarrow> string \<Rightarrow> val \<Rightarrow> prop_item list \<times> val" where
  "setProperty [] var_name var_value = ([], VNone)"
| "setProperty (prop_item # rest) var_name var_value =
     (if prop_name prop_item = var_name
      then (case prop_set_val prop_item var_value of
              Inl e \<Rightarrow> (prop_item # rest, VStr ''ERROR'')
            | Inr prop_item' \<Rightarrow>
                (case setProperty rest var_name var_value of
                   (rest', r) \<Rightarrow> (prop_item' # rest', r)))
      else (case setProperty rest var_name var_value of
              (rest', r) \<Rightarrow> (prop_item # rest', r)))"

subsection \<open>The constructor\<close>

text \<open>
  The first loop of \<^verbatim>\<open>__init__\<close>, outside the \<^verbatim>\<open>try\<close> block. The test
  \<^verbatim>\<open>prop['source'] is not 'derived'\<close> compares with the literal the table itself
  uses, so it is false exactly for the derived entries.
\<close>

definition resolve_prop :: "snapshot \<Rightarrow> prop_item \<Rightarrow> error + prop_item" where
  "resolve_prop myDict prop =
     (if prop_source prop \<noteq> ''derived'' then
        (let sourceName = prop_source prop in
         case prop_abbrev prop of
           None \<Rightarrow> Inl KeyError
         | Some abbrevName \<Rightarrow>
             if dict_contains myDict sourceName then
               bind_err (dict_getitem myDict sourceName) (\<lambda>sec.
                 if dict_contains sec abbrevName then
                   bind_err (dict_getitem sec abbrevName) (\<lambda>v. Inr (prop\<lparr>prop_val := v\<rparr>))
                 else Inr prop)
             else Inr prop)
      else Inr prop)"

fun resolve_all :: "snapshot \<Rightarrow> prop_item list \<Rightarrow> error + prop_item list" where
  "resolve_all myDict [] = Inr []"
| "resolve_all myDict (prop # rest) =
     bind_err (resolve_prop myDict prop) (\<lambda>prop'.
     bind_err (resolve_all myDict rest) (\<lambda>rest'. Inr (prop' # rest')))"

text \<open>\<^verbatim>\<open>myDict[section][key]\<close>.\<close>

definition snapshot_get :: "snapshot \<Rightarrow> string \<Rightarrow> string \<Rightarrow> error + val" where
  "snapshot_get myDict sec key = bind_err (dict_getitem myDict sec) (\<lambda>s. dict_getitem s key)"

text \<open>The reads before the station loop: the four bytes and \<^verbatim>\<open>num_stations\<close>.\<close>

definition read_station_bytes :: "snapshot \<Rightarrow> error + (val \<times> val \<times> val \<times> val \<times> val)" where
  "read_station_bytes myDict =
     bind_err (bind_err (snapshot_get myDict ''stations'' ''ignore_rain'') (\<lambda>a. val_getitem a 0))
       (\<lambda>ir_byte.
     bind_err (bind_err (snapshot_get myDict ''stations'' ''stn_seq'') (\<lambda>a. val_getitem a 0))
       (\<lambda>seq_byte.
     bind_err (bind_err (snapshot_get myDict ''stations'' ''stn_dis'') (\<lambda>a. val_getitem a 0))
       (\<lambda>dis_byte.
     bind_err (bind_err (snapshot_get myDict ''stations'' ''stn_spe'') (\<lambda>a. val_getitem a 0))
       (\<lambda>spe_byte.
     bind_err (snapshot_get myDict ''status'' ''nstations'')
       (\<lambda>num_stations. Inr (ir_byte, seq_byte, dis_byte, spe_byte, num_stations))))))"

text \<open>The body of the station loop up to the constructor call, for one \<open>idx \<ge> 0\<close>.\<close>

definition decode_station ::
  "snapshot \<Rightarrow> val \<Rightarrow> val \<Rightarrow> val \<Rightarrow> val \<Rightarrow> int \<Rightarrow> error + station" where
  "decode_station myDict ir_byte seq_byte dis_byte spe_byte idx =
     bind_err (bind_err (snapshot_get myDict ''stations'' ''snames'') (\<lambda>a. val_getitem a idx))
       (\<lambda>station_name.
     bind_err (bind_err (snapshot_get myDict ''status'' ''sn'') (\<lambda>a. val_getitem a idx))
       (\<lambda>status.
     bind_err (py_and ir_byte (2 ^ nat idx)) (\<lambda>ignore_rain.
     bind_err (py_and dis_byte (2 ^ nat idx)) (\<lambda>is_disabled.
     bind_err (py_and seq_byte (2 ^ nat idx)) (\<lambda>is_sequential.
     bind_err (py_and spe_byte (2 ^ nat idx)) (\<lambda>is_special.
       Inr (OpenSprinklerStation_init station_name status idx ignore_rain is_sequential
              is_disabled is_special)))))))"

text \<open>
  \<^verbatim>\<open>while idx < num_stations\<close>: the comparison raises when \<^verbatim>\<open>num_stations\<close> is not a
  number. The list is the shared \<^verbatim>\<open>controller_stations\<close>; what was appended before
  an exception stays in it.
\<close>

function stations_loop ::
  "snapshot \<Rightarrow> val \<Rightarrow> val \<Rightarrow> val \<Rightarrow> val \<Rightarrow> val \<Rightarrow> int \<Rightarrow> station list
     \<Rightarrow> station list \<times> error option" where
  "stations_loop myDict ir_byte seq_byte dis_byte spe_byte num_stations idx stations =
     (case as_int num_stations of
        Inl e \<Rightarrow> (stations, Some e)
      | Inr n \<Rightarrow>
          if idx < n then
            (case decode_station myDict ir_byte seq_byte dis_byte spe_byte idx of
               Inl e \<Rightarrow> (stations, Some e)
             | Inr this_station \<Rightarrow>
                 stations_loop myDict ir_byte seq_byte dis_byte spe_byte num_stations (idx + 1)
                   (stations @ [this_station]))
          else (stations, None))"
  by pat_completeness auto
termination
  by (relation "measure (\<lambda>(myDict, ir_byte, seq_byte, dis_byte, spe_byte, num_stations, idx,
         stations). case as_int num_stations of Inl e \<Rightarrow> 0 | Inr n \<Rightarrow> nat (n - idx))") auto

declare stations_loop.simps [simp del]

text \<open>The body of the program loop for one \<open>idx \<ge> 0\<close>.\<close>

definition decode_program :: "snapshot \<Rightarrow> int \<Rightarrow> error + program" where
  "decode_program myDict idx =
     bind_err (bind_err (snapshot_get myDict ''programs'' ''pd'') (\<lambda>a. val_getitem a idx))
       (\<lambda>program_data.
     bind_err (val_getitem program_data 0) (\<lambda>flags.
     bind_err (val_getitem program_data 1) (\<lambda>days0.
     bind_err (val_getitem program_data 2) (\<lambda>days1.
     bind_err (val_getitem program_data 3) (\<lambda>startTimes.
     bind_err (val_getitem program_data 4) (\<lambda>durations.
     bind_err (val_getitem program_data 5) (\<lambda>program_name.
       Inr (OpenSprinklerProgram_init program_name flags days0 days1 startTimes
              durations))))))))"

function programs_loop ::
  "snapshot \<Rightarrow> val \<Rightarrow> int \<Rightarrow> program list \<Rightarrow> program list \<times> error option" where
  "programs_loop myDict num_programs idx programs =
     (case as_int num_programs of
        Inl e \<Rightarrow> (programs, Some e)
      | Inr n \<Rightarrow>
          if idx < n then
            (case decode_program myDict idx of
               Inl e \<Rightarrow> (programs, Some e)
             | Inr this_program \<Rightarrow>
                 programs_loop myDict num_programs (idx + 1) (programs @ [this_program]))
          else (programs, None))"
  by pat_completeness auto
termination
  by (relation "measure (\<lambda>(myDict, num_programs, idx, programs).
         case as_int num_programs of Inl e \<Rightarrow> 0 | Inr n \<Rightarrow> nat (n - idx))") auto

declare programs_loop.simps [simp del]

text \<open>
  The \<^verbatim>\<open>try\<close> block of \<^verbatim>\<open>__init__\<close> on the class attributes and the instance: the
  state at the exception, or at the end, and the exception if there was one.
\<close>

definition controller_try ::
  "snapshot \<Rightarrow> class_attrs \<times> controller \<Rightarrow> (class_attrs \<times> controller) \<times> error option" where
  "controller_try myDict st =
     (case st of (cls, self) \<Rightarrow>
       (case snapshot_get myDict ''settings'' ''en'' of
          Inl e \<Rightarrow> ((cls, self), Some e)
        | Inr en \<Rightarrow>
           (let self1 = self\<lparr>controller_enabled := truthy en\<rparr> in
             (case read_station_bytes myDict of
                Inl e \<Rightarrow> ((cls, self1), Some e)
              | Inr (ir_byte, seq_byte, dis_byte, spe_byte, num_stations) \<Rightarrow>
                 (case stations_loop myDict ir_byte seq_byte dis_byte spe_byte num_stations 0
                         (controller_stations cls) of
                    (stations, Some e) \<Rightarrow>
                      ((cls\<lparr>controller_stations := stations\<rparr>, self1), Some e)
                  | (stations, None) \<Rightarrow>
                     (let cls1 = cls\<lparr>controller_stations := stations\<rparr> in
                       (case getProperty (controller_properties self1) ''num_programs'' of
                          Inl e \<Rightarrow> ((cls1, self1), Some e)
                        | Inr num_programs \<Rightarrow>
                           (case programs_loop myDict num_programs 0
                                   (controller_programs cls1) of
                              (programs, r) \<Rightarrow>
                                ((cls1\<lparr>controller_programs := programs\<rparr>, self1), r)))))))))"

text \<open>
  \<^verbatim>\<open>OpenSprinklerController(myDict)\<close>, given the class attributes as they are when
  it is called. An exception of the first loop leaves the constructor; one of the
  \<^verbatim>\<open>try\<close> block is dropped by \<^verbatim>\<open>except: None\<close> and the object is returned as it
  is.
\<close>

definition OpenSprinklerController_init ::
  "class_attrs \<Rightarrow> snapshot \<Rightarrow> error + (class_attrs \<times> controller)" where
  "OpenSprinklerController_init cls myDict =
     bind_err (resolve_all myDict registry) (\<lambda>props.
       Inr (fst (controller_try myDict
                   (cls, \<lparr>controller_properties = props, controller_enabled = False\<rparr>))))"

text \<open>
  What the first loop of the constructor leaves in one entry of the table, written
  without the intermediate lookups; \<open>resolve_prop_closed\<close> below shows that this is what
  \<open>resolve_prop\<close> returns.
\<close>

definition resolved_entry :: "snapshot \<Rightarrow> prop_item \<Rightarrow> prop_item" where
  "resolved_entry myDict p =
     (if prop_source p = ''derived'' then p
      else case prop_abbrev p of
             None \<Rightarrow> p
           | Some a \<Rightarrow>
               (case map_of myDict (prop_source p) of
                  None \<Rightarrow> p
                | Some sec \<Rightarrow>
                    (case map_of sec a of None \<Rightarrow> p | Some v \<Rightarrow> p\<lparr>prop_val := v\<rparr>)))"

section \<open>Example snapshots\<close>

text \<open>
  A snapshot of a controller with three stations and one program. Its
  \<^verbatim>\<open>ignore_rain\<close> byte is \<open>0b00000101\<close>.
\<close>

definition example_snapshot :: snapshot where
  "example_snapshot =
     [(''settings'', [(''en'', VInt 1), (''devt'', VInt 1700000000)]),
      (''options'', [(''fwv'', VInt 217)]),
      (''stations'',
         [(''snames'', VList [VStr ''Front'', VStr ''Back'', VStr ''Drip'']),
          (''ignore_rain'', VList [VInt 5]), (''stn_seq'', VList [VInt 7]),
          (''stn_dis'', VList [VInt 2]), (''stn_spe'', VList [VInt 0])]),
      (''status'', [(''sn'', VList [VInt 0, VInt 1, VInt 0]), (''nstations'', VInt 3)]),
      (''programs'',
         [(''nprogs'', VInt 1),
          (''pd'', VList [VList [VInt 1, VInt 65, VInt 0, VList [VInt 360, VInt 0],
                                 VList [VInt 600, VInt 0, VInt 0], VStr ''Lawn'']])])]"


section \<open>Properties of the program decoder\<close>

subsection \<open>Flag bits\<close>

lemma and_pow2_bit: "((f::int) AND 2 ^ n \<noteq> 0) = bit f n"
  by (simp add: bit_iff_and_push_bit_not_eq_0 push_bit_eq_mult)

lemma and_mask_bits:
  "((f::int) AND 1 \<noteq> 0) = bit f 0"
  "((f::int) AND 2 \<noteq> 0) = bit f 1"
  "((f::int) AND 4 \<noteq> 0) = bit f 2"
  "((f::int) AND 8 \<noteq> 0) = bit f 3"
  "((f::int) AND 16 \<noteq> 0) = bit f 4"
  "((f::int) AND 32 \<noteq> 0) = bit f 5"
  "((f::int) AND 64 \<noteq> 0) = bit f 6"
  using and_pow2_bit [of f 0] and_pow2_bit [of f 1] and_pow2_bit [of f 2]
    and_pow2_bit [of f 3] and_pow2_bit [of f 4] and_pow2_bit [of f 5] and_pow2_bit [of f 6]
  by simp_all

lemma py_and_int: "py_and (VInt f) m = Inr (f AND m)"
  by (simp add: py_and_def bind_err_def)

lemma program_try_int:
  "program_try pname (VInt f) days0 days1 sTimes durs program_class_attrs =
     run_steps
       [\<lambda>self. setSchedule (getScheduleType self) days0 days1 self,
        \<lambda>self. setStartTimes (getStartTimeType self) sTimes self,
        \<lambda>self. (setDurations self durs, None)]
       (program_class_attrs
          \<lparr>program_name := pname,
           program_enabled := bit f 0,
           program_use_weather_adjustment := bit f 1,
           program_restriction :=
             (if bit f 2 then ''Odd'' else if bit f 3 then ''Even'' else ''None''),
           program_schedule_type := (if bit f 4 \<or> bit f 5 then ''Interval'' else ''Weekday''),
           program_start_time_type := (if bit f 6 then ''Fixed'' else ''Repeating'')\<rparr>)"
  by (simp add: program_try_def init_enabled_def init_wx_adjustment_def init_restrictions_def
      init_schedule_type_def init_start_time_type_def py_and_int and_mask_bits
      setName_def setEnabled_def setWxAdjustment_def setRestrictions_def setScheduleType_def
      setStartTimeType_def)

text \<open>What the schedule, start time and duration statements leave as it is.\<close>

lemma setSchedule_frame:
  "program_name (fst (setSchedule t d0 d1 p)) = program_name p \<and>
   program_enabled (fst (setSchedule t d0 d1 p)) = program_enabled p \<and>
   program_use_weather_adjustment (fst (setSchedule t d0 d1 p)) =
     program_use_weather_adjustment p \<and>
   program_restriction (fst (setSchedule t d0 d1 p)) = program_restriction p \<and>
   program_schedule_type (fst (setSchedule t d0 d1 p)) = program_schedule_type p \<and>
   program_start_time_type (fst (setSchedule t d0 d1 p)) = program_start_time_type p"
  by (simp add: setSchedule_def setWeekdaySchedule_def setIntervalSchedule_def
      split: sum.split)

lemma repeating_loop_frame:
  "program_name (fst (repeating_loop xs p)) = program_name p \<and>
   program_enabled (fst (repeating_loop xs p)) = program_enabled p \<and>
   program_use_weather_adjustment (fst (repeating_loop xs p)) =
     program_use_weather_adjustment p \<and>
   program_restriction (fst (repeating_loop xs p)) = program_restriction p \<and>
   program_schedule_type (fst (repeating_loop xs p)) = program_schedule_type p \<and>
   program_start_time_type (fst (repeating_loop xs p)) = program_start_time_type p"
  by (induction xs arbitrary: p) (simp_all split: sum.split)

lemma fixed_loop_frame:
  "program_name (fst (fixed_loop xs p)) = program_name p \<and>
   program_enabled (fst (fixed_loop xs p)) = program_enabled p \<and>
   program_use_weather_adjustment (fst (fixed_loop xs p)) =
     program_use_weather_adjustment p \<and>
   program_restriction (fst (fixed_loop xs p)) = program_restriction p \<and>
   program_schedule_type (fst (fixed_loop xs p)) = program_schedule_type p \<and>
   program_start_time_type (fst (fixed_loop xs p)) = program_start_time_type p"
  by (induction xs arbitrary: p) (simp_all split: sum.split)

lemma setStartTimes_frame:
  "program_name (fst (setStartTimes t sTimes p)) = program_name p \<and>
   program_enabled (fst (setStartTimes t sTimes p)) = program_enabled p \<and>
   program_use_weather_adjustment (fst (setStartTimes t sTimes p)) =
     program_use_weather_adjustment p \<and>
   program_restriction (fst (setStartTimes t sTimes p)) = program_restriction p \<and>
   program_schedule_type (fst (setStartTimes t sTimes p)) = program_schedule_type p \<and>
   program_start_time_type (fst (setStartTimes t sTimes p)) = program_start_time_type p"
  by (simp add: setStartTimes_def setFixedStartTimes_def setRepeatingStartTimes_def
      repeating_loop_frame fixed_loop_frame Let_def split: sum.split)


lemma run_steps_frame:
  assumes "\<And>f s. f \<in> set fs \<Longrightarrow> P (fst (f s)) = P s"
  shows "P (fst (run_steps fs s)) = P s"
  using assms
proof (induction fs arbitrary: s)
  case Nil
  then show ?case by simp
next
  case (Cons f fs)
  obtain s' r where fs: "f s = (s', r)" by (cases "f s")
  have s': "P s' = P s" using Cons.prems [of f s] fs by simp
  show ?case
  proof (cases r)
    case None
    have "P (fst (run_steps fs s')) = P s'"
      by (rule Cons.IH) (simp add: Cons.prems)
    with None fs s' show ?thesis by simp
  next
    case (Some e)
    with fs s' show ?thesis by simp
  qed
qed

lemma tail_frame:
  assumes q_def: "q = fst (run_steps
       [\<lambda>self. setSchedule (getScheduleType self) days0 days1 self,
        \<lambda>self. setStartTimes (getStartTimeType self) sTimes self,
        \<lambda>self. (setDurations self durs, None)] p)"
  shows "program_name q = program_name p \<and>
   program_enabled q = program_enabled p \<and>
   program_use_weather_adjustment q = program_use_weather_adjustment p \<and>
   program_restriction q = program_restriction p \<and>
   program_schedule_type q = program_schedule_type p \<and>
   program_start_time_type q = program_start_time_type p"
proof -
  let ?P = "\<lambda>x. (program_name x, program_enabled x, program_use_weather_adjustment x,
                 program_restriction x, program_schedule_type x, program_start_time_type x)"
  have "?P q = ?P p"
    unfolding q_def
  proof (rule run_steps_frame)
    fix f s
    assume "f \<in> set [\<lambda>self. setSchedule (getScheduleType self) days0 days1 self,
        \<lambda>self. setStartTimes (getStartTimeType self) sTimes self,
        \<lambda>self. (setDurations self durs, None)]"
    then consider "f = (\<lambda>self. setSchedule (getScheduleType self) days0 days1 self)"
      | "f = (\<lambda>self. setStartTimes (getStartTimeType self) sTimes self)"
      | "f = (\<lambda>self. (setDurations self durs, None))"
      by auto
    then show "?P (fst (f s)) = ?P s"
    proof cases
      case 1
      then show ?thesis using setSchedule_frame [of "getScheduleType s" days0 days1 s] by simp
    next
      case 2
      then show ?thesis using setStartTimes_frame [of "getStartTimeType s" sTimes s] by simp
    next
      case 3
      then show ?thesis by (simp add: setDurations_def)
    qed
  qed
  then show ?thesis by simp
qed

text \<open>
  Claim C5. For every integer \<open>flags\<close>, whatever the other arguments are, the constructed
  program has \<open>enabled\<close> = bit 0, \<open>useWeatherAdjustment\<close> = bit 1, restriction \<open>Odd\<close> if
  bit 2 is set, else \<open>Even\<close> if bit 3 is set, else \<open>None\<close>, schedule type \<open>Interval\<close> if bit 4
  or bit 5 is set and \<open>Weekday\<close> otherwise, and start time type \<open>Fixed\<close> if bit 6 is set and
  \<open>Repeating\<close> otherwise. The witness is the value \<open>0b00000001\<close>.
\<close>

theorem program_flags_decoded:
  "program_enabled (OpenSprinklerProgram_init pname (VInt flags) days0 days1 sTimes durs) =
     bit flags 0 \<and>
   program_use_weather_adjustment
     (OpenSprinklerProgram_init pname (VInt flags) days0 days1 sTimes durs) = bit flags 1 \<and>
   program_restriction (OpenSprinklerProgram_init pname (VInt flags) days0 days1 sTimes durs) =
     (if bit flags 2 then ''Odd'' else if bit flags 3 then ''Even'' else ''None'') \<and>
   program_schedule_type (OpenSprinklerProgram_init pname (VInt flags) days0 days1 sTimes durs) =
     (if bit flags 4 \<or> bit flags 5 then ''Interval'' else ''Weekday'') \<and>
   program_start_time_type
     (OpenSprinklerProgram_init pname (VInt flags) days0 days1 sTimes durs) =
     (if bit flags 6 then ''Fixed'' else ''Repeating'')"
proof -
  note fr = tail_frame [OF program_try_int [THEN arg_cong [where f = fst]],
      of pname flags days0 days1 sTimes durs]
  show ?thesis
    unfolding OpenSprinklerProgram_init_def
    using fr by (simp add: program_class_attrs_def)
qed

theorem program_flags_decoded_witness:
  "program_enabled
     (OpenSprinklerProgram_init (VStr ''Lawn'') (VInt 1) (VInt 0) (VInt 0) (VList [])
        (VList [])) = True \<and>
   program_use_weather_adjustment
     (OpenSprinklerProgram_init (VStr ''Lawn'') (VInt 1) (VInt 0) (VInt 0) (VList [])
        (VList [])) = False \<and>
   program_restriction
     (OpenSprinklerProgram_init (VStr ''Lawn'') (VInt 1) (VInt 0) (VInt 0) (VList [])
        (VList [])) = ''None'' \<and>
   program_schedule_type
     (OpenSprinklerProgram_init (VStr ''Lawn'') (VInt 1) (VInt 0) (VInt 0) (VList [])
        (VList [])) = ''Weekday'' \<and>
   program_start_time_type
     (OpenSprinklerProgram_init (VStr ''Lawn'') (VInt 1) (VInt 0) (VInt 0) (VList [])
        (VList [])) = ''Repeating''"
  using program_flags_decoded [of "VStr ''Lawn''" 1 "VInt 0" "VInt 0" "VList []" "VList []"]
  by simp

subsection \<open>Evaluation at concrete arguments\<close>

lemmas program_eval =
  OpenSprinklerProgram_init_def program_try_def init_enabled_def init_wx_adjustment_def
  init_restrictions_def init_schedule_type_def init_start_time_type_def py_and_def bind_err_def
  setName_def setEnabled_def setWxAdjustment_def setRestrictions_def setScheduleType_def
  setStartTimeType_def setDurations_def setSchedule_def setWeekdaySchedule_def
  setIntervalSchedule_def setStartTimes_def setFixedStartTimes_def setRepeatingStartTimes_def
  getScheduleType_def getStartTimeType_def getStartTimes_def getSchedule_def getDurations_def
  local_name_def repeating_start_time_def program_class_attrs_def week_def

text \<open>
  Claim C2 says that an interval program decodes to \<open>{interval: days1, delay: days0}\<close>, so
  that \<open>days0 = 5\<close>, \<open>days1 = 3\<close> gives interval 3 and delay 5. \<^verbatim>\<open>setSchedule\<close> passes
  \<^verbatim>\<open>(d1, d0)\<close> to a function whose parameters are named \<^verbatim>\<open>(d0, d1)\<close> and which stores
  \<^verbatim>\<open>{'interval': d1, 'delay': d0}\<close>: the two exchanges cancel, and the program built from
  flags with bit 4 set, \<open>days0 = 5\<close> and \<open>days1 = 3\<close> has interval 5 and delay 3.
\<close>

theorem interval_schedule_swapped:
  "getScheduleType
     (OpenSprinklerProgram_init (VStr ''Lawn'') (VInt 16) (VInt 5) (VInt 3) (VList [])
        (VList [])) = ''Interval'' \<and>
   getSchedule
     (OpenSprinklerProgram_init (VStr ''Lawn'') (VInt 16) (VInt 5) (VInt 3) (VList [])
        (VList [])) = [VDict [(''interval'', VInt 5), (''delay'', VInt 3)]]"
  by (simp add: program_eval)

text \<open>
  Claim C9 says that a program with bit 6 of its flags set keeps every non-zero start time
  as it is and still gets its zone durations. \<^verbatim>\<open>setFixedStartTimes\<close> iterates over a name
  it does not bind; the exception ends the \<^verbatim>\<open>try\<close> block of the constructor before
  \<^verbatim>\<open>setDurations\<close>. For flags 64, start times \<open>[360]\<close> and durations \<open>[600]\<close> the program
  has no start time and the durations of the class, the empty list.
\<close>

theorem fixed_start_times_lost:
  "getStartTimeType
     (OpenSprinklerProgram_init (VStr ''Lawn'') (VInt 64) (VInt 0) (VInt 0) (VList [VInt 360])
        (VList [VInt 600])) = ''Fixed'' \<and>
   getStartTimes
     (OpenSprinklerProgram_init (VStr ''Lawn'') (VInt 64) (VInt 0) (VInt 0) (VList [VInt 360])
        (VList [VInt 600])) = [] \<and>
   getDurations
     (OpenSprinklerProgram_init (VStr ''Lawn'') (VInt 64) (VInt 0) (VInt 0) (VList [VInt 360])
        (VList [VInt 600])) = VList []"
  by (simp add: program_eval)

text \<open>
  Claim C4 as stated decodes every non-zero start time of a repeating program. The loop
  tests \<^verbatim>\<open>sTime > 0\<close>: the non-zero entry \<open>-1\<close> of a repeating program produces no start
  time.
\<close>

theorem nonpositive_start_time_skipped:
  "(- 1 :: int) \<noteq> 0 \<and>
   getStartTimeType
     (OpenSprinklerProgram_init (VStr ''Lawn'') (VInt 0) (VInt 0) (VInt 0) (VList [VInt (- 1)])
        (VList [])) = ''Repeating'' \<and>
   getStartTimes
     (OpenSprinklerProgram_init (VStr ''Lawn'') (VInt 0) (VInt 0) (VInt 0) (VList [VInt (- 1)])
        (VList [])) = []"
  by (simp add: program_eval)

subsection \<open>Repeating start times\<close>

lemma weekday_entries_int: "\<exists>s. weekday_entries (VInt d) ds = Inr s"
  by (induction ds) (auto simp: py_and_int bind_err_def)

lemma setSchedule_int:
  "\<exists>s. setSchedule t (VInt d0) d1 p = (p\<lparr>program_schedule := s\<rparr>, None)"
  using weekday_entries_int [of d0 "enumerate 0 week"]
  by (auto simp: setSchedule_def setWeekdaySchedule_def setIntervalSchedule_def)

lemma repeating_loop_ints:
  "repeating_loop (map VInt ts) p =
     (p\<lparr>program_repeating_start_times :=
          program_repeating_start_times p @
          map repeating_start_time (filter (\<lambda>t. 0 < t) ts)\<rparr>, None)"
  by (induction ts arbitrary: p) simp_all

lemma setRepeatingStartTimes_ints:
  "setRepeatingStartTimes (VList (map VInt ts)) p =
     (p\<lparr>program_fixed_start_times := [],
        program_repeating_start_times := map repeating_start_time (filter (\<lambda>t. 0 < t) ts)\<rparr>,
      None)"
  by (simp add: setRepeatingStartTimes_def repeating_loop_ints)

lemma tail_repeating:
  assumes "program_start_time_type p \<noteq> ''Fixed''"
  shows "\<exists>s. fst (run_steps
       [\<lambda>self. setSchedule (getScheduleType self) (VInt days0) days1 self,
        \<lambda>self. setStartTimes (getStartTimeType self) (VList (map VInt ts)) self,
        \<lambda>self. (setDurations self durs, None)] p) =
     p\<lparr>program_schedule := s,
       program_fixed_start_times := [],
       program_repeating_start_times := map repeating_start_time (filter (\<lambda>t. 0 < t) ts),
       program_zone_durations := durs\<rparr>"
proof -
  obtain s where s: "setSchedule (getScheduleType p) (VInt days0) days1 p =
      (p\<lparr>program_schedule := s\<rparr>, None)"
    using setSchedule_int by blast
  have "fst (run_steps
       [\<lambda>self. setSchedule (getScheduleType self) (VInt days0) days1 self,
        \<lambda>self. setStartTimes (getStartTimeType self) (VList (map VInt ts)) self,
        \<lambda>self. (setDurations self durs, None)] p) =
     p\<lparr>program_schedule := s,
       program_fixed_start_times := [],
       program_repeating_start_times := map repeating_start_time (filter (\<lambda>t. 0 < t) ts),
       program_zone_durations := durs\<rparr>"
    using assms
    by (simp add: s setStartTimes_def getStartTimeType_def setRepeatingStartTimes_ints
        setDurations_def)
  then show ?thesis by blast
qed

text \<open>
  Claim C4, amended. For a program whose flags have bit 6 clear (start time type
  \<open>Repeating\<close>), with an integer \<open>days0\<close> and a list of integer start times, the decoded
  start times are, in order, one dictionary for every entry \<open>t > 0\<close>: basis \<open>Sunset\<close> if
  \<open>t & 0x2000\<close> is set, else \<open>Sunrise\<close> if \<open>t & 0x1000\<close> is set, else \<open>Midnight\<close>; sign \<open>plus\<close>
  if \<open>t & 0x800\<close> is set, else \<open>minus\<close>; offset \<open>t & 0x7FF\<close>. Entries that are zero or
  negative produce no start time.
\<close>

theorem repeating_start_times_decoded:
  assumes "\<not> bit flags 6"
  shows
  "getStartTimeType
     (OpenSprinklerProgram_init pname (VInt flags) (VInt days0) days1 (VList (map VInt ts)) durs)
     = ''Repeating'' \<and>
   getStartTimes
     (OpenSprinklerProgram_init pname (VInt flags) (VInt days0) days1 (VList (map VInt ts)) durs)
     = map (\<lambda>t. VDict
             [(''basis'', VStr (if t AND 0x2000 \<noteq> 0 then ''Sunset''
                               else if t AND 0x1000 \<noteq> 0 then ''Sunrise''
                               else ''Midnight'')),
              (''sign'', VStr (if t AND 0x800 \<noteq> 0 then ''plus'' else ''minus'')),
              (''offset'', VInt (t AND 0x7ff))])
         (filter (\<lambda>t. 0 < t) ts)"
proof -
  let ?p0 = "program_class_attrs
          \<lparr>program_name := pname,
           program_enabled := bit flags 0,
           program_use_weather_adjustment := bit flags 1,
           program_restriction :=
             (if bit flags 2 then ''Odd'' else if bit flags 3 then ''Even'' else ''None''),
           program_schedule_type :=
             (if bit flags 4 \<or> bit flags 5 then ''Interval'' else ''Weekday''),
           program_start_time_type := (if bit flags 6 then ''Fixed'' else ''Repeating'')\<rparr>"
  have rep: "program_start_time_type ?p0 = ''Repeating''"
    using assms by simp
  then have "program_start_time_type ?p0 \<noteq> ''Fixed''"
    by simp
  from tail_repeating [OF this, of days0 days1 ts durs]
  obtain s where
    "OpenSprinklerProgram_init pname (VInt flags) (VInt days0) days1 (VList (map VInt ts)) durs =
     ?p0\<lparr>program_schedule := s,
       program_fixed_start_times := [],
       program_repeating_start_times := map repeating_start_time (filter (\<lambda>t. 0 < t) ts),
       program_zone_durations := durs\<rparr>"
    unfolding OpenSprinklerProgram_init_def program_try_int by blast
  then show ?thesis
    using assms
    by (simp add: getStartTimeType_def getStartTimes_def repeating_start_time_def)
qed

theorem repeating_start_times_decoded_witness:
  "getStartTimeType
     (OpenSprinklerProgram_init (VStr ''Lawn'') (VInt 1) (VInt 65) (VInt 0)
        (VList (map VInt [0x2000 OR 0x800 OR 30, 0, - 1, 12318])) (VList [VInt 600]))
     = ''Repeating'' \<and>
   getStartTimes
     (OpenSprinklerProgram_init (VStr ''Lawn'') (VInt 1) (VInt 65) (VInt 0)
        (VList (map VInt [0x2000 OR 0x800 OR 30, 0, - 1, 12318])) (VList [VInt 600]))
     = [VDict [(''basis'', VStr ''Sunset''), (''sign'', VStr ''plus''), (''offset'', VInt 30)],
        VDict [(''basis'', VStr ''Sunset''), (''sign'', VStr ''minus''), (''offset'', VInt 30)]]"
  using repeating_start_times_decoded [of 1 "VStr ''Lawn''" 65 "VInt 0"
      "[0x2000 OR 0x800 OR 30, 0, - 1, 12318]" "VList [VInt 600]"]
  by simp

section \<open>Properties of the controller\<close>

subsection \<open>Resolution of the property table\<close>

lemma resolve_prop_closed:
  assumes "prop_source p = ''derived'' \<or> prop_abbrev p \<noteq> None"
  shows "resolve_prop myDict p = Inr (resolved_entry myDict p)"
  using assms
  by (auto simp: resolve_prop_def resolved_entry_def dict_contains_def dict_getitem_def
      bind_err_def Let_def split: option.split)

lemma resolve_all_closed:
  assumes "\<forall>p\<in>set ps. prop_source p = ''derived'' \<or> prop_abbrev p \<noteq> None"
  shows "resolve_all myDict ps = Inr (map (resolved_entry myDict) ps)"
  using assms
  by (induction ps) (simp_all add: resolve_prop_closed bind_err_def)

lemma registry_wf: "\<forall>p\<in>set registry. prop_source p = ''derived'' \<or> prop_abbrev p \<noteq> None"
  by code_simp

lemma resolve_all_registry:
  "resolve_all myDict registry = Inr (map (resolved_entry myDict) registry)"
  by (rule resolve_all_closed) (rule registry_wf)

lemma resolved_entry_name [simp]: "prop_name (resolved_entry myDict p) = prop_name p"
  by (simp add: resolved_entry_def split: option.split)

lemma getProperty_mapped_registry:
  "getProperty (map f registry) n =
     (if prop_name (f (sourced ''device_time'' ''settings'' ''devt'' (VInt 0))) = n
      then Inr (prop_val (f (sourced ''device_time'' ''settings'' ''devt'' (VInt 0))))
      else Inl NameError)"
  unfolding registry_def by (simp only: list.map getProperty.simps)


subsection \<open>The station loop\<close>

lemma decode_station_valid:
  assumes "snapshot_get myDict ''stations'' ''snames'' = Inr (VList names)"
    and "snapshot_get myDict ''status'' ''sn'' = Inr (VList sts)"
    and "0 \<le> idx" "idx < int (length names)" "idx < int (length sts)"
  shows "decode_station myDict (VInt ir) (VInt sq) (VInt ds) (VInt sp) idx =
     Inr (OpenSprinklerStation_init (names ! nat idx) (sts ! nat idx) idx
            (ir AND 2 ^ nat idx) (sq AND 2 ^ nat idx) (ds AND 2 ^ nat idx)
            (sp AND 2 ^ nat idx))"
  using assms
  by (simp add: decode_station_def bind_err_def list_getitem_def py_and_int)

lemma stations_loop_valid:
  assumes "snapshot_get myDict ''stations'' ''snames'' = Inr (VList names)"
    and "snapshot_get myDict ''status'' ''sn'' = Inr (VList sts)"
    and "n \<le> int (length names)" "n \<le> int (length sts)" "0 \<le> idx"
  shows "stations_loop myDict (VInt ir) (VInt sq) (VInt ds) (VInt sp) (VInt n) idx acc =
     (acc @ map (\<lambda>i. OpenSprinklerStation_init (names ! nat i) (sts ! nat i) i
                        (ir AND 2 ^ nat i) (sq AND 2 ^ nat i) (ds AND 2 ^ nat i)
                        (sp AND 2 ^ nat i)) [idx..n - 1], None)"
  using assms(5)
proof (induction "nat (n - idx)" arbitrary: idx acc)
  case 0
  then have "\<not> idx < n" by simp
  then have "[idx..n - 1] = []" by simp
  with \<open>\<not> idx < n\<close> show ?case
    by (subst stations_loop.simps) simp
next
  case (Suc k)
  then have lt: "idx < n" by simp
  have up: "[idx..n - 1] = idx # [idx + 1..n - 1]"
    using lt by (simp add: upto_rec1)
  have dec: "decode_station myDict (VInt ir) (VInt sq) (VInt ds) (VInt sp) idx =
     Inr (OpenSprinklerStation_init (names ! nat idx) (sts ! nat idx) idx
            (ir AND 2 ^ nat idx) (sq AND 2 ^ nat idx) (ds AND 2 ^ nat idx)
            (sp AND 2 ^ nat idx))"
    using assms(1-4) Suc.prems lt by (intro decode_station_valid) simp_all
  have k: "k = nat (n - (idx + 1))" using Suc.hyps(2) by simp
  have nxt: "0 \<le> idx + 1" using Suc.prems by simp
  show ?case
    by (subst stations_loop.simps) (simp add: lt dec up Suc.hyps(1) [OF k nxt])
qed


subsection \<open>The constructor\<close>

lemma init_closed:
  "OpenSprinklerController_init cls myDict =
     Inr (fst (controller_try myDict
                 (cls, \<lparr>controller_properties = map (resolved_entry myDict) registry,
                        controller_enabled = False\<rparr>)))"
  by (simp add: OpenSprinklerController_init_def resolve_all_registry bind_err_def)

lemma num_programs_raises:
  "getProperty (map (resolved_entry myDict) registry) ''num_programs'' = Inl NameError"
  by (simp add: getProperty_mapped_registry sourced_def)

lemma controller_try_programs:
  assumes "getProperty (controller_properties self) ''num_programs'' = Inl e"
  shows "controller_programs (fst (fst (controller_try myDict (cls, self)))) =
           controller_programs cls"
  using assms
  by (simp add: controller_try_def Let_def split: sum.split prod.split option.split)

lemma controller_try_properties:
  "controller_properties (snd (fst (controller_try myDict (cls, self)))) =
     controller_properties self"
  by (simp add: controller_try_def Let_def split: sum.split prod.split option.split)


lemma read_station_bytes_valid:
  assumes "snapshot_get myDict ''stations'' ''ignore_rain'' = Inr (VList (VInt ir # irs))"
    and "snapshot_get myDict ''stations'' ''stn_seq'' = Inr (VList (VInt sq # sqs))"
    and "snapshot_get myDict ''stations'' ''stn_dis'' = Inr (VList (VInt ds # dss))"
    and "snapshot_get myDict ''stations'' ''stn_spe'' = Inr (VList (VInt sp # sps))"
    and "snapshot_get myDict ''status'' ''nstations'' = Inr nst"
  shows "read_station_bytes myDict = Inr (VInt ir, VInt sq, VInt ds, VInt sp, nst)"
  using assms by (simp add: read_station_bytes_def bind_err_def list_getitem_def)

lemma controller_try_valid:
  assumes "snapshot_get myDict ''settings'' ''en'' = Inr en"
    and "snapshot_get myDict ''stations'' ''ignore_rain'' = Inr (VList (VInt ir # irs))"
    and "snapshot_get myDict ''stations'' ''stn_seq'' = Inr (VList (VInt sq # sqs))"
    and "snapshot_get myDict ''stations'' ''stn_dis'' = Inr (VList (VInt ds # dss))"
    and "snapshot_get myDict ''stations'' ''stn_spe'' = Inr (VList (VInt sp # sps))"
    and "snapshot_get myDict ''status'' ''nstations'' = Inr (VInt n)"
    and "snapshot_get myDict ''stations'' ''snames'' = Inr (VList names)"
    and "snapshot_get myDict ''status'' ''sn'' = Inr (VList sts)"
    and "n \<le> int (length names)" "n \<le> int (length sts)"
    and "getProperty (controller_properties self) ''num_programs'' = Inl e"
  shows "fst (controller_try myDict (cls, self)) =
     (cls\<lparr>controller_stations := controller_stations cls @
          map (\<lambda>i. OpenSprinklerStation_init (names ! nat i) (sts ! nat i) i
                        (ir AND 2 ^ nat i) (sq AND 2 ^ nat i) (ds AND 2 ^ nat i)
                        (sp AND 2 ^ nat i)) [0..n - 1]\<rparr>,
      self\<lparr>controller_enabled := truthy en\<rparr>)"
proof -
  have loop: "stations_loop myDict (VInt ir) (VInt sq) (VInt ds) (VInt sp) (VInt n) 0
      (controller_stations cls) =
     (controller_stations cls @
          map (\<lambda>i. OpenSprinklerStation_init (names ! nat i) (sts ! nat i) i
                        (ir AND 2 ^ nat i) (sq AND 2 ^ nat i) (ds AND 2 ^ nat i)
                        (sp AND 2 ^ nat i)) [0..n - 1], None)"
    using assms(7-10) by (intro stations_loop_valid) simp_all
  show ?thesis
    by (simp add: controller_try_def assms(1) assms(11)
        read_station_bytes_valid [OF assms(2-6)] loop)
qed


text \<open>
  Claim C7. The first loop of the constructor never raises, whatever the snapshot is: the
  constructor returns a controller whose property list is the result of the loop, entry by
  entry in the order of the table and under the same names. An entry whose source is not
  \<open>derived\<close> holds the raw value \<open>snapshot[section][key]\<close> when the snapshot has the section
  and the section has the key, and the default of the table otherwise; a derived entry
  keeps its default.
\<close>

theorem registry_resolution:
  "\<exists>cls' c. OpenSprinklerController_init cls myDict = Inr (cls', c) \<and>
      resolve_all myDict registry = Inr (controller_properties c) \<and>
      length (controller_properties c) = length registry \<and>
      (\<forall>i<length registry.
         prop_name (controller_properties c ! i) = prop_name (registry ! i) \<and>
         (prop_source (registry ! i) = ''derived'' \<longrightarrow>
            prop_val (controller_properties c ! i) = prop_val (registry ! i)) \<and>
         (prop_source (registry ! i) \<noteq> ''derived'' \<longrightarrow>
            (\<exists>key. prop_abbrev (registry ! i) = Some key \<and>
               prop_val (controller_properties c ! i) =
                 (case map_of myDict (prop_source (registry ! i)) of
                    None \<Rightarrow> prop_val (registry ! i)
                  | Some section \<Rightarrow>
                      (case map_of section key of
                         None \<Rightarrow> prop_val (registry ! i)
                       | Some v \<Rightarrow> v)))))"
proof -
  let ?props = "map (resolved_entry myDict) registry"
  let ?r = "fst (controller_try myDict
                 (cls, \<lparr>controller_properties = ?props, controller_enabled = False\<rparr>))"
  have init: "OpenSprinklerController_init cls myDict = Inr (fst ?r, snd ?r)"
    by (simp add: init_closed)
  have props: "controller_properties (snd ?r) = ?props"
    by (simp add: controller_try_properties)
  have entry: "prop_name (?props ! i) = prop_name (registry ! i) \<and>
         (prop_source (registry ! i) = ''derived'' \<longrightarrow>
            prop_val (?props ! i) = prop_val (registry ! i)) \<and>
         (prop_source (registry ! i) \<noteq> ''derived'' \<longrightarrow>
            (\<exists>key. prop_abbrev (registry ! i) = Some key \<and>
               prop_val (?props ! i) =
                 (case map_of myDict (prop_source (registry ! i)) of
                    None \<Rightarrow> prop_val (registry ! i)
                  | Some section \<Rightarrow>
                      (case map_of section key of
                         None \<Rightarrow> prop_val (registry ! i)
                       | Some v \<Rightarrow> v))))"
    if "i < length registry" for i
  proof -
    have "registry ! i \<in> set registry" using that by simp
    then have wf: "prop_source (registry ! i) = ''derived'' \<or> prop_abbrev (registry ! i) \<noteq> None"
      using registry_wf by blast
    show ?thesis
      using that wf by (auto simp: resolved_entry_def split: option.split)
  qed
  show ?thesis
    using init props entry resolve_all_registry [of myDict] by (intro exI [of _ "fst ?r"] exI [of _ "snd ?r"]) simp
qed

theorem registry_resolution_witness:
  "\<exists>cls' c. OpenSprinklerController_init class_loaded example_snapshot = Inr (cls', c) \<and>
      length (controller_properties c) = 73 \<and>
      prop_name (controller_properties c ! 63) = ''num_stations'' \<and>
      prop_val (controller_properties c ! 63) = VInt 3 \<and>
      prop_name (controller_properties c ! 3) = ''rain_delay'' \<and>
      prop_val (controller_properties c ! 3) = VInt 0 \<and>
      prop_name (controller_properties c ! 71) = ''port_number'' \<and>
      prop_val (controller_properties c ! 71) = VInt 0"
proof -
  have len: "length registry = 73" by code_simp
  have r63: "registry ! 63 = sourced ''num_stations'' ''status'' ''nstations'' (VInt 0)"
    by code_simp
  have r3: "registry ! 3 = sourced ''rain_delay'' ''settings'' ''rd'' (VInt 0)"
    by code_simp
  have r71: "registry ! 71 = derived ''port_number'' ''hp1 << 8 + hp0'' (VInt 0)"
    by code_simp
  from registry_resolution [of class_loaded example_snapshot]
  obtain cls' c where init: "OpenSprinklerController_init class_loaded example_snapshot = Inr (cls', c)"
    and l: "length (controller_properties c) = length registry"
    and all: "\<And>i. i < length registry \<Longrightarrow>
         prop_name (controller_properties c ! i) = prop_name (registry ! i) \<and>
         (prop_source (registry ! i) = ''derived'' \<longrightarrow>
            prop_val (controller_properties c ! i) = prop_val (registry ! i)) \<and>
         (prop_source (registry ! i) \<noteq> ''derived'' \<longrightarrow>
            (\<exists>key. prop_abbrev (registry ! i) = Some key \<and>
               prop_val (controller_properties c ! i) =
                 (case map_of example_snapshot (prop_source (registry ! i)) of
                    None \<Rightarrow> prop_val (registry ! i)
                  | Some section \<Rightarrow>
                      (case map_of section key of
                         None \<Rightarrow> prop_val (registry ! i)
                       | Some v \<Rightarrow> v))))"
    by blast
  have "prop_name (controller_properties c ! 63) = ''num_stations'' \<and>
      prop_val (controller_properties c ! 63) = VInt 3"
    using all [of 63] by (simp add: len r63 sourced_def example_snapshot_def)
  moreover have "prop_name (controller_properties c ! 3) = ''rain_delay'' \<and>
      prop_val (controller_properties c ! 3) = VInt 0"
    using all [of 3] by (simp add: len r3 sourced_def example_snapshot_def)
  moreover have "prop_name (controller_properties c ! 71) = ''port_number'' \<and>
      prop_val (controller_properties c ! 71) = VInt 0"
    using all [of 71] by (simp add: len r71 derived_def)
  ultimately show ?thesis using init l len by simp
qed

subsection \<open>Writing a property\<close>

text \<open>
  Claim C10. For a name that no entry of the property list has, \<^verbatim>\<open>setProperty\<close> raises
  nothing, returns \<^verbatim>\<open>None\<close> and leaves the whole list, hence every registered value, as
  it was.
\<close>

theorem setProperty_unknown_name:
  assumes "var_name \<notin> set (map prop_name props)"
  shows "setProperty props var_name var_value = (props, VNone)"
  using assms by (induction props) (auto simp: prop_set_val_def)

theorem setProperty_unknown_name_witness:
  "''zone_count'' \<notin> set (map prop_name registry) \<and>
   setProperty registry ''zone_count'' (VInt 8) = (registry, VNone)"
proof -
  have "''zone_count'' \<notin> set (map prop_name registry)" by code_simp
  then show ?thesis using setProperty_unknown_name [of "''zone_count''" registry "VInt 8"] by simp
qed


subsection \<open>Station flags\<close>

text \<open>
  Claim C6. Let the snapshot be valid: \<^verbatim>\<open>settings.en\<close> is present, the four flag arrays
  start with an integer byte, \<^verbatim>\<open>nstations\<close> is an integer \<open>n \<ge> 0\<close>, and \<^verbatim>\<open>snames\<close> and
  \<^verbatim>\<open>sn\<close> are lists of at least \<open>n\<close> items. Then the constructor appends exactly \<open>n\<close>
  stations, and the station decoded for index \<open>idx\<close> has that index, name and status, its
  ignore-rain flag is set exactly when bit \<open>idx\<close> of \<^verbatim>\<open>ignore_rain[0]\<close> is set, and likewise
  its sequential, disabled and special flags against \<^verbatim>\<open>stn_seq[0]\<close>, \<^verbatim>\<open>stn_dis[0]\<close> and
  \<^verbatim>\<open>stn_spe[0]\<close>. The same byte is read for every index: when it is a byte (below 256),
  every station from index 8 on has the flag clear. The bound \<open>n \<le> 8\<close> of the claim is not
  needed for the first part.
\<close>

theorem station_flags_decoded:
  assumes "snapshot_get myDict ''settings'' ''en'' = Inr en"
    and "snapshot_get myDict ''stations'' ''ignore_rain'' = Inr (VList (VInt ir # irs))"
    and "snapshot_get myDict ''stations'' ''stn_seq'' = Inr (VList (VInt sq # sqs))"
    and "snapshot_get myDict ''stations'' ''stn_dis'' = Inr (VList (VInt ds # dss))"
    and "snapshot_get myDict ''stations'' ''stn_spe'' = Inr (VList (VInt sp # sps))"
    and "snapshot_get myDict ''status'' ''nstations'' = Inr (VInt n)"
    and "snapshot_get myDict ''stations'' ''snames'' = Inr (VList names)"
    and "snapshot_get myDict ''status'' ''sn'' = Inr (VList sts)"
    and "0 \<le> n" "n \<le> int (length names)" "n \<le> int (length sts)"
  shows "\<exists>cls' c new.
      OpenSprinklerController_init cls myDict = Inr (cls', c) \<and>
      controller_stations cls' = controller_stations cls @ new \<and>
      length new = nat n \<and>
      (\<forall>idx<nat n.
         station_id (new ! idx) = int idx \<and>
         station_name (new ! idx) = names ! idx \<and>
         status (new ! idx) = sts ! idx \<and>
         (ignore_rain_flag (new ! idx) \<noteq> 0) = bit ir idx \<and>
         (is_sequential_flag (new ! idx) \<noteq> 0) = bit sq idx \<and>
         (is_disabled_flag (new ! idx) \<noteq> 0) = bit ds idx \<and>
         (is_special_flag (new ! idx) \<noteq> 0) = bit sp idx \<and>
         (8 \<le> idx \<longrightarrow> 0 \<le> ir \<longrightarrow> ir < 256 \<longrightarrow> ignore_rain_flag (new ! idx) = 0) \<and>
         (8 \<le> idx \<longrightarrow> 0 \<le> sq \<longrightarrow> sq < 256 \<longrightarrow> is_sequential_flag (new ! idx) = 0) \<and>
         (8 \<le> idx \<longrightarrow> 0 \<le> ds \<longrightarrow> ds < 256 \<longrightarrow> is_disabled_flag (new ! idx) = 0) \<and>
         (8 \<le> idx \<longrightarrow> 0 \<le> sp \<longrightarrow> sp < 256 \<longrightarrow> is_special_flag (new ! idx) = 0))"
proof -
  let ?self = "\<lparr>controller_properties = map (resolved_entry myDict) registry,
                controller_enabled = False\<rparr>"
  let ?mk = "\<lambda>i. OpenSprinklerStation_init (names ! nat i) (sts ! nat i) i
                        (ir AND 2 ^ nat i) (sq AND 2 ^ nat i) (ds AND 2 ^ nat i)
                        (sp AND 2 ^ nat i)"
  let ?new = "map ?mk [0..n - 1]"
  have np: "getProperty (controller_properties ?self) ''num_programs'' = Inl NameError"
    by (simp add: num_programs_raises)
  have init: "OpenSprinklerController_init cls myDict =
      Inr (cls\<lparr>controller_stations := controller_stations cls @ ?new\<rparr>,
           ?self\<lparr>controller_enabled := truthy en\<rparr>)"
    unfolding init_closed
    using controller_try_valid [OF assms(1-8) assms(10,11) np, of cls] by simp
  have len: "length ?new = nat n"
    using assms(9) by simp
  have nth: "?new ! idx = ?mk (int idx)" if "idx < nat n" for idx
    using that by simp
  have small: "b AND 2 ^ idx = 0" if "8 \<le> idx" "0 \<le> b" "b < 256" for b :: int and idx
  proof -
    have "(256::int) \<le> 2 ^ idx"
      using power_increasing [of 8 idx "2::int"] that(1) by simp
    then have "b < 2 ^ idx" using that(3) by simp
    then have "\<not> bit b idx"
      using that(2) by (simp add: bit_iff_odd)
    then show ?thesis using and_pow2_bit [of b idx] by simp
  qed
  have each: "station_id (?new ! idx) = int idx \<and>
         station_name (?new ! idx) = names ! idx \<and>
         status (?new ! idx) = sts ! idx \<and>
         (ignore_rain_flag (?new ! idx) \<noteq> 0) = bit ir idx \<and>
         (is_sequential_flag (?new ! idx) \<noteq> 0) = bit sq idx \<and>
         (is_disabled_flag (?new ! idx) \<noteq> 0) = bit ds idx \<and>
         (is_special_flag (?new ! idx) \<noteq> 0) = bit sp idx \<and>
         (8 \<le> idx \<longrightarrow> 0 \<le> ir \<longrightarrow> ir < 256 \<longrightarrow> ignore_rain_flag (?new ! idx) = 0) \<and>
         (8 \<le> idx \<longrightarrow> 0 \<le> sq \<longrightarrow> sq < 256 \<longrightarrow> is_sequential_flag (?new ! idx) = 0) \<and>
         (8 \<le> idx \<longrightarrow> 0 \<le> ds \<longrightarrow> ds < 256 \<longrightarrow> is_disabled_flag (?new ! idx) = 0) \<and>
         (8 \<le> idx \<longrightarrow> 0 \<le> sp \<longrightarrow> sp < 256 \<longrightarrow> is_special_flag (?new ! idx) = 0)"
    if "idx < nat n" for idx
    unfolding nth [OF that]
    by (simp add: OpenSprinklerStation_init_def and_pow2_bit small)
  show ?thesis
    using init len each
    by (intro exI [of _ "cls\<lparr>controller_stations := controller_stations cls @ ?new\<rparr>"]
        exI [of _ "?self\<lparr>controller_enabled := truthy en\<rparr>"] exI [of _ ?new]) simp
qed

theorem station_flags_decoded_witness:
  "\<exists>cls' c new.
      OpenSprinklerController_init class_loaded example_snapshot = Inr (cls', c) \<and>
      controller_stations cls' = new \<and>
      length new = 3 \<and>
      ignore_rain_flag (new ! 0) \<noteq> 0 \<and>
      ignore_rain_flag (new ! 1) = 0 \<and>
      ignore_rain_flag (new ! 2) \<noteq> 0 \<and>
      is_disabled_flag (new ! 1) \<noteq> 0 \<and>
      station_name (new ! 2) = VStr ''Drip''"
proof -
  have "\<exists>cls' c new.
      OpenSprinklerController_init class_loaded example_snapshot = Inr (cls', c) \<and>
      controller_stations cls' = controller_stations class_loaded @ new \<and>
      length new = nat 3 \<and>
      (\<forall>idx<nat 3.
         station_id (new ! idx) = int idx \<and>
         station_name (new ! idx) = [VStr ''Front'', VStr ''Back'', VStr ''Drip''] ! idx \<and>
         status (new ! idx) = [VInt 0, VInt 1, VInt 0] ! idx \<and>
         (ignore_rain_flag (new ! idx) \<noteq> 0) = bit (5::int) idx \<and>
         (is_sequential_flag (new ! idx) \<noteq> 0) = bit (7::int) idx \<and>
         (is_disabled_flag (new ! idx) \<noteq> 0) = bit (2::int) idx \<and>
         (is_special_flag (new ! idx) \<noteq> 0) = bit (0::int) idx \<and>
         (8 \<le> idx \<longrightarrow> 0 \<le> (5::int) \<longrightarrow> (5::int) < 256 \<longrightarrow> ignore_rain_flag (new ! idx) = 0) \<and>
         (8 \<le> idx \<longrightarrow> 0 \<le> (7::int) \<longrightarrow> (7::int) < 256 \<longrightarrow> is_sequential_flag (new ! idx) = 0) \<and>
         (8 \<le> idx \<longrightarrow> 0 \<le> (2::int) \<longrightarrow> (2::int) < 256 \<longrightarrow> is_disabled_flag (new ! idx) = 0) \<and>
         (8 \<le> idx \<longrightarrow> 0 \<le> (0::int) \<longrightarrow> (0::int) < 256 \<longrightarrow> is_special_flag (new ! idx) = 0))"
    by (rule station_flags_decoded [where en = "VInt 1" and irs = "[]" and sqs = "[]"
          and dss = "[]" and sps = "[]"])
      (simp_all add: example_snapshot_def snapshot_get_def dict_getitem_def bind_err_def)
  then obtain cls' c new where
    init: "OpenSprinklerController_init class_loaded example_snapshot = Inr (cls', c)"
    and st: "controller_stations cls' = controller_stations class_loaded @ new"
    and len: "length new = nat 3"
    and all: "\<And>idx. idx < nat 3 \<Longrightarrow>
         station_name (new ! idx) = [VStr ''Front'', VStr ''Back'', VStr ''Drip''] ! idx \<and>
         (ignore_rain_flag (new ! idx) \<noteq> 0) = bit (5::int) idx \<and>
         (is_disabled_flag (new ! idx) \<noteq> 0) = bit (2::int) idx"
    by blast
  have b: "bit (5::int) 0" "\<not> bit (5::int) 1" "bit (5::int) 2" "bit (2::int) 1"
    by (simp_all add: bit_iff_odd)
  have "ignore_rain_flag (new ! 0) \<noteq> 0" using all [of 0] b by simp
  moreover have "ignore_rain_flag (new ! 1) = 0 \<and> is_disabled_flag (new ! 1) \<noteq> 0"
    using all [of 1] b by simp
  moreover have "ignore_rain_flag (new ! 2) \<noteq> 0 \<and> station_name (new ! 2) = VStr ''Drip''"
    using all [of 2] b by simp
  ultimately show ?thesis
    using init st len by (simp add: class_loaded_def)
qed

subsection \<open>Exceptions in the constructor\<close>








subsection \<open>Reading a property\<close>

text \<open>On every constructed controller only the first entry can be read.\<close>

lemma getProperty_only_first:
  assumes "OpenSprinklerController_init cls myDict = Inr (cls', c)"
    and "var_name \<noteq> ''device_time''"
  shows "getProperty (controller_properties c) var_name = Inl NameError"
proof -
  let ?self = "\<lparr>controller_properties = map (resolved_entry myDict) registry,
                controller_enabled = False\<rparr>"
  have "c = snd (fst (controller_try myDict (cls, ?self)))"
    using assms(1) unfolding init_closed by auto
  then have "controller_properties c = map (resolved_entry myDict) registry"
    by (simp add: controller_try_properties)
  then show ?thesis
    using assms(2) by (auto simp: getProperty_mapped_registry sourced_def)
qed

text \<open>
  Claim C1 says that \<^verbatim>\<open>getProperty\<close> returns the value of every name of the registry
  and fails exactly for the names that are absent. The \<^verbatim>\<open>raise\<close> is the \<^verbatim>\<open>else\<close> branch
  inside the loop, so only the first entry can be read: on the controller built from the
  example snapshot \<^verbatim>\<open>'num_stations'\<close> is a name of the property list and
  \<^verbatim>\<open>getProperty('num_stations')\<close> raises, while \<^verbatim>\<open>getProperty('device_time')\<close> returns
  the value.
\<close>

theorem getProperty_raises_for_registered_name:
  "\<not> isl (OpenSprinklerController_init class_loaded example_snapshot) \<and>
   ''num_stations'' \<in> set (map prop_name (controller_properties
      (snd (projr (OpenSprinklerController_init class_loaded example_snapshot))))) \<and>
   getProperty (controller_properties
      (snd (projr (OpenSprinklerController_init class_loaded example_snapshot)))) ''num_stations''
     = Inl NameError \<and>
   getProperty (controller_properties
      (snd (projr (OpenSprinklerController_init class_loaded example_snapshot)))) ''device_time''
     = Inr (VInt 1700000000)"
  by code_simp

subsection \<open>Lengths of the station and program lists\<close>

text \<open>No construction appends a program.\<close>

lemma constructor_appends_no_program:
  assumes "OpenSprinklerController_init cls myDict = Inr (cls', c)"
  shows "controller_programs cls' = controller_programs cls"
proof -
  let ?self = "\<lparr>controller_properties = map (resolved_entry myDict) registry,
                controller_enabled = False\<rparr>"
  have "getProperty (controller_properties ?self) ''num_programs'' = Inl NameError"
    by (simp add: num_programs_raises)
  from controller_try_programs [OF this, of myDict cls]
  show ?thesis
    using assms unfolding init_closed by auto
qed

text \<open>
  Claim C8 says that every constructed controller has as many stations as its resolved
  \<^verbatim>\<open>num_stations\<close> and as many programs as its resolved \<^verbatim>\<open>num_programs\<close>. On the example
  snapshot (3 stations, 1 program), starting from the class as loaded, the first
  controller has 3 stations and no program, because \<^verbatim>\<open>getProperty('num_programs')\<close>
  raises before the program loop; the second controller built from the same snapshot has
  6 stations, because both append to the list of the class.
\<close>

theorem station_and_program_counts_diverge:
  "map_of (getProperties (controller_properties
      (snd (projr (OpenSprinklerController_init class_loaded example_snapshot)))))
      ''num_stations'' = Some (VInt 3) \<and>
   map_of (getProperties (controller_properties
      (snd (projr (OpenSprinklerController_init class_loaded example_snapshot)))))
      ''num_programs'' = Some (VInt 1) \<and>
   length (getStations (fst (projr (OpenSprinklerController_init class_loaded example_snapshot)))
      (snd (projr (OpenSprinklerController_init class_loaded example_snapshot)))) = 3 \<and>
   length (getPrograms (fst (projr (OpenSprinklerController_init class_loaded example_snapshot)))
      (snd (projr (OpenSprinklerController_init class_loaded example_snapshot)))) = 0 \<and>
   \<not> isl (OpenSprinklerController_init
      (fst (projr (OpenSprinklerController_init class_loaded example_snapshot)))
      example_snapshot) \<and>
   length (getStations
      (fst (projr (OpenSprinklerController_init
         (fst (projr (OpenSprinklerController_init class_loaded example_snapshot)))
         example_snapshot)))
      (snd (projr (OpenSprinklerController_init
         (fst (projr (OpenSprinklerController_init class_loaded example_snapshot)))
         example_snapshot)))) = 6"
  by code_simp

end
